theory Spec2Isabelle
  imports Complex_Main
begin

section \<open>E-Mandi: the SMS command interpreter and the lot/bid ledger of app.py\<close>

text \<open>
  The development embeds \<^verbatim>\<open>src/app.py\<close>: the three SQLAlchemy models, the helper
  \<^verbatim>\<open>get_or_create_user\<close>, the notification gateway \<^verbatim>\<open>send_sms\<close>, the webhook
  \<^verbatim>\<open>sms_handler\<close> and the dashboard endpoints \<^verbatim>\<open>get_all_lots\<close>,
  \<^verbatim>\<open>generate_contract\<close> and \<^verbatim>\<open>confirm_sale\<close>.

  Conventions of the embedding.
  \<^item> A table is the list of its rows in rowid order; \<^verbatim>\<open>query.first()\<close> is the first
    row of the list that satisfies the filter, \<^verbatim>\<open>query.get(pk)\<close> the first row with
    that primary key. A new row gets the primary key \<open>max + 1\<close> (1 on an empty table).
  \<^item> A Python \<^verbatim>\<open>float\<close> is modelled by its exact rational value (type \<open>rat\<close>);
    NaN, the infinities and rounding are not represented. The builtins \<^verbatim>\<open>int()\<close>,
    \<^verbatim>\<open>float()\<close> and \<^verbatim>\<open>str()\<close> on floats are parameters of the model (record
    \<open>builtins\<close>), \<open>None\<close> standing for \<^verbatim>\<open>ValueError\<close>.
  \<^item> The twelve random digits drawn for a new user's login code are an argument of the
    handler. The UNIQUE constraint on \<^verbatim>\<open>login_code\<close> is not modelled: the
    codes drawn are taken to be fresh.
  \<^item> The database is the in-memory SQLite database the application configures. Its states
    are the ones the handlers produce from the empty database (predicate \<open>reachable\<close>).
  \<^item> Effects are logs in the state: \<open>outbox\<close> holds the calls of \<^verbatim>\<open>send_sms\<close> as
    (recipient, text) pairs, \<open>emitted\<close> the payloads of
    \<^verbatim>\<open>socketio.emit('bid_update', ...)\<close>.
  \<^item> An uncaught Python exception is a value of type \<open>py_error\<close>; the request then
    ends without a reply, and the state is what was committed before the exception.
\<close>

subsection \<open>Data model\<close>

record User =
  user_id :: int
  phone_number :: string
  user_type :: string
  district :: "string option"
  login_code :: string

record Lot =
  lot_id :: int
  farmer_id :: int
  crop_type :: string
  quantity_kg :: rat
  min_price :: "rat option"
  status :: string
  is_collective :: bool
  members :: "int list"

record Bid =
  bid_id :: int
  bid_lot_id :: int
  bidder_id :: int
  bid_amount :: rat

record world =
  users :: "User list"
  lots :: "Lot list"
  bids :: "Bid list"
  outbox :: "(string \<times> string) list"
  emitted :: "(int \<times> rat) list"

datatype py_error = AttributeError | StatementError

text \<open>A Python number that is either an \<^verbatim>\<open>int\<close> or a \<^verbatim>\<open>float\<close>: the local
  \<^verbatim>\<open>min_price\<close> of the LIST branch is a float when parsed and an int when taken from
  \<^verbatim>\<open>MSP_PRICES\<close>.\<close>

datatype pynum = PyInt int | PyFloat rat

record builtins =
  py_int :: "string \<Rightarrow> int option"
  py_float :: "string \<Rightarrow> rat option"
  py_str_float :: "rat \<Rightarrow> string"

subsection \<open>Mock data\<close>

definition MSP_PRICES :: "string \<Rightarrow> int option" where
  "MSP_PRICES = [''wheat'' \<mapsto> 2275, ''rice'' \<mapsto> 2203, ''maize'' \<mapsto> 2090]"

subsection \<open>Strings\<close>

text \<open>\<^verbatim>\<open>str(n)\<close> for an integer.\<close>

definition digit_char :: "nat \<Rightarrow> char" where
  "digit_char d = ''0123456789'' ! d"

fun str_nat :: "nat \<Rightarrow> string" where
  "str_nat n = (if n < 10 then [digit_char n] else str_nat (n div 10) @ [digit_char (n mod 10)])"

declare str_nat.simps [simp del]

definition str_int :: "int \<Rightarrow> string" where
  "str_int i = (if i < 0 then CHR ''-'' # str_nat (nat (- i)) else str_nat (nat i))"

text \<open>\<^verbatim>\<open>str.strip()\<close>, \<^verbatim>\<open>str.lower()\<close> and \<^verbatim>\<open>str.split(' ')\<close> on ASCII text. The
  whitespace of \<^verbatim>\<open>strip\<close> is the ASCII part of Python's: codes 9 to 13, 28 to 31
  and 32.\<close>

definition is_space :: "char \<Rightarrow> bool" where
  "is_space c = (let n = (of_char c :: nat) in (9 \<le> n \<and> n \<le> 13) \<or> (28 \<le> n \<and> n \<le> 32))"

definition strip :: "string \<Rightarrow> string" where
  "strip s = rev (dropWhile is_space (rev (dropWhile is_space s)))"

definition lower_char :: "char \<Rightarrow> char" where
  "lower_char c =
     (case map_of (zip ''ABCDEFGHIJKLMNOPQRSTUVWXYZ'' ''abcdefghijklmnopqrstuvwxyz'') c of
        Some l \<Rightarrow> l
      | None \<Rightarrow> c)"

definition lower :: "string \<Rightarrow> string" where
  "lower s = map lower_char s"

fun split_sp :: "string \<Rightarrow> string list" where
  "split_sp [] = [[]]"
| "split_sp (c # cs) =
     (if c = CHR '' '' then [] # split_sp cs
      else (case split_sp cs of [] \<Rightarrow> [[c]] | p # ps \<Rightarrow> (c # p) # ps))"

subsection \<open>Python numbers\<close>

fun num_val :: "pynum \<Rightarrow> rat" where
  "num_val (PyInt i) = of_int i"
| "num_val (PyFloat x) = x"

fun num_str :: "builtins \<Rightarrow> pynum \<Rightarrow> string" where
  "num_str B (PyInt i) = str_int i"
| "num_str B (PyFloat x) = py_str_float B x"

text \<open>Truthiness of an optional number: \<^verbatim>\<open>None\<close> and zero are false.\<close>

fun truthy :: "rat option \<Rightarrow> bool" where
  "truthy None = False"
| "truthy (Some x) = (x \<noteq> 0)"

subsection \<open>Tables\<close>

definition next_id :: "int list \<Rightarrow> int" where
  "next_id ids = fold max ids 0 + 1"

text \<open>Mutating the object returned by \<^verbatim>\<open>first()\<close> or \<^verbatim>\<open>get()\<close> and committing
  rewrites that row.\<close>

fun update_first :: "('a \<Rightarrow> bool) \<Rightarrow> ('a \<Rightarrow> 'a) \<Rightarrow> 'a list \<Rightarrow> 'a list" where
  "update_first P f [] = []"
| "update_first P f (x # xs) = (if P x then f x # xs else x # update_first P f xs)"

text \<open>\<^verbatim>\<open>db.func.max\<close> over a column: NULL on no rows.\<close>

fun sql_max :: "rat list \<Rightarrow> rat option" where
  "sql_max [] = None"
| "sql_max (x # xs) = (case sql_max xs of None \<Rightarrow> Some x | Some m \<Rightarrow> Some (max x m))"

subsection \<open>Inserting a bid\<close>

text \<open>The column \<^verbatim>\<open>timestamp\<close> of \<^verbatim>\<open>Bid\<close> is declared
  \<^verbatim>\<open>db.Column(db.DateTime, default=lambda: time.time())\<close>, and the BID branch builds
  its row without a timestamp, so the INSERT binds the value of the default, a Python
  \<^verbatim>\<open>float\<close>. On SQLite the \<^verbatim>\<open>DateTime\<close> type binds \<^verbatim>\<open>datetime\<close> and
  \<^verbatim>\<open>date\<close> objects only and raises \<^verbatim>\<open>TypeError\<close> on any other value;
  \<^verbatim>\<open>db.session.commit()\<close> reports it as \<^verbatim>\<open>StatementError\<close>, which is neither a
  \<^verbatim>\<open>ValueError\<close> nor an \<^verbatim>\<open>IndexError\<close>. Only the Python type of the bound
  value decides; the row is not written.\<close>

datatype pytype = Float_type | Datetime_type | Date_type

definition Bid_timestamp_default :: pytype where
  "Bid_timestamp_default = Float_type"

definition sqlite_DateTime_binds :: "pytype \<Rightarrow> bool" where
  "sqlite_DateTime_binds t = (t = Datetime_type \<or> t = Date_type)"

definition add_Bid :: "Bid \<Rightarrow> world \<Rightarrow> py_error + world" where
  "add_Bid b w =
     (if sqlite_DateTime_binds Bid_timestamp_default then Inr (w\<lparr>bids := bids w @ [b]\<rparr>)
      else Inl StatementError)"

subsection \<open>Notification gateway and user directory\<close>

definition send_sms :: "string \<Rightarrow> string \<Rightarrow> world \<Rightarrow> world" where
  "send_sms to message w = w\<lparr>outbox := outbox w @ [(to, message)]\<rparr>"

definition welcome_msg :: "string \<Rightarrow> string" where
  "welcome_msg code =
     ''Welcome to Farmer Market! Your login code is '' @ code @ ''. Use this for the web portal.''"

definition get_or_create_user ::
  "string \<Rightarrow> string \<Rightarrow> string \<Rightarrow> string option \<Rightarrow> world \<Rightarrow> User \<times> world" where
  "get_or_create_user code phone utype distr w =
     (case find (\<lambda>u. phone_number u = phone) (users w) of
        Some user \<Rightarrow> (user, w)
      | None \<Rightarrow>
          (let user = \<lparr>user_id = next_id (map user_id (users w)), phone_number = phone,
                       user_type = utype, district = distr, login_code = code\<rparr>
           in (user, send_sms phone (welcome_msg code) (w\<lparr>users := users w @ [user]\<rparr>))))"

subsection \<open>Highest bid and the dashboard listing\<close>

text \<open>\<^verbatim>\<open>db.session.query(db.func.max(Bid.bid_amount)).filter_by(lot_id=...).scalar() or 0\<close>:
  a NULL and a zero maximum both give 0.\<close>

definition lot_bids :: "world \<Rightarrow> int \<Rightarrow> Bid list" where
  "lot_bids w i = filter (\<lambda>b. bid_lot_id b = i) (bids w)"

definition highest_bid :: "world \<Rightarrow> int \<Rightarrow> rat" where
  "highest_bid w i =
     (case sql_max (map bid_amount (lot_bids w i)) of
        None \<Rightarrow> 0
      | Some m \<Rightarrow> (if m \<noteq> 0 then m else 0))"

record lot_row =
  row_id :: int
  row_crop_type :: string
  row_quantity_kg :: rat
  row_min_price :: "rat option"
  row_highest_bid :: rat

definition get_all_lots :: "world \<Rightarrow> lot_row list" where
  "get_all_lots w =
     map (\<lambda>lot. \<lparr>row_id = lot_id lot, row_crop_type = crop_type lot,
                 row_quantity_kg = quantity_kg lot, row_min_price = min_price lot,
                 row_highest_bid = highest_bid w (lot_id lot)\<rparr>)
         (filter (\<lambda>lot. status lot = ''open'') (lots w))"

subsection \<open>The SMS webhook\<close>

text \<open>The outcome of a request to the webhook: the text of the single reply message, or
  the exception that ended it.\<close>

type_synonym reply = "py_error + string"

definition invalid_list :: string where
  "invalid_list = ''Invalid format. Use 'LIST CROP QUANTITY [PRICE]'.''"

definition invalid_bid :: string where
  "invalid_bid = ''Invalid format. Use 'BID LOT_ID AMOUNT'.''"

definition invalid_collective :: string where
  "invalid_collective = ''Invalid format. Use 'COLLECTIVE CROP QUANTITY DISTRICT'.''"

definition help_msg :: string where
  "help_msg =
     ''Welcome to the marketplace! Commands: 'LIST <CROP> <QTY> [PRICE]' or 'BID <LOT_ID> <AMT>'.''"

definition not_available :: string where
  "not_available = ''Lot is not available for bidding.''"

definition too_low_msg :: "builtins \<Rightarrow> rat \<Rightarrow> string" where
  "too_low_msg B m = ''Your bid is too low. Minimum price is Rs. '' @ py_str_float B m @ ''.''"

definition recorded_msg :: "builtins \<Rightarrow> rat \<Rightarrow> int \<Rightarrow> string" where
  "recorded_msg B amount i =
     ''Your bid of Rs. '' @ py_str_float B amount @ '' for lot '' @ str_int i @ '' has been recorded.''"

definition alert_msg :: "builtins \<Rightarrow> rat \<Rightarrow> string \<Rightarrow> int \<Rightarrow> int \<Rightarrow> string" where
  "alert_msg B amount crop i msp =
     ''ALERT: A bid of Rs. '' @ py_str_float B amount @ '' on your '' @ crop @ '' lot '' @ str_int i
       @ '' is below the MSP of Rs. '' @ str_int msp @ ''.''"

definition listed_msg :: "builtins \<Rightarrow> string \<Rightarrow> rat \<Rightarrow> int \<Rightarrow> pynum option \<Rightarrow> string" where
  "listed_msg B crop quantity i price =
     ''Lot listed! Crop: '' @ crop @ '', Quantity: '' @ py_str_float B quantity @ ''kg. Lot ID: ''
       @ str_int i
       @ (case price of
            None \<Rightarrow> '' at the current MSP''
          | Some p \<Rightarrow> (if num_val p \<noteq> 0 then '' at your minimum price of Rs. '' @ num_str B p
                       else '' at the current MSP''))
       @ ''.''"

definition joined_msg :: "builtins \<Rightarrow> string \<Rightarrow> rat \<Rightarrow> int \<Rightarrow> string" where
  "joined_msg B crop tot i =
     ''You have joined the collective lot for '' @ crop @ ''. Total quantity is now ''
       @ py_str_float B tot @ ''kg. Collective Lot ID: '' @ str_int i"

definition created_msg :: "string \<Rightarrow> int \<Rightarrow> string" where
  "created_msg crop i = ''New collective lot for '' @ crop @ '' created. Lot ID: '' @ str_int i @ ''.''"

text \<open>The branch \<^verbatim>\<open>command == 'list' and len(parts) >= 3\<close>. The price is parsed only
  when a fourth token is present; otherwise it is the MSP of the crop, an \<^verbatim>\<open>int\<close>, or
  \<^verbatim>\<open>None\<close>.\<close>

definition list_cmd :: "builtins \<Rightarrow> string \<Rightarrow> string \<Rightarrow> string list \<Rightarrow> world \<Rightarrow> reply \<times> world" where
  "list_cmd B code phone parts w =
     (let crop = parts ! 1 in
      case py_float B (parts ! 2) of
        None \<Rightarrow> (Inr invalid_list, w)
      | Some quantity \<Rightarrow>
          (case (if 3 < length parts
                 then (case py_float B (parts ! 3) of
                         None \<Rightarrow> None
                       | Some p \<Rightarrow> Some (Some (PyFloat p)))
                 else Some (map_option PyInt (MSP_PRICES crop))) of
             None \<Rightarrow> (Inr invalid_list, w)
           | Some price \<Rightarrow>
               (case get_or_create_user code phone ''farmer'' None w of
                  (user, w1) \<Rightarrow>
                    (let new_lot = \<lparr>lot_id = next_id (map lot_id (lots w1)),
                                    farmer_id = user_id user, crop_type = crop,
                                    quantity_kg = quantity, min_price = map_option num_val price,
                                    status = ''open'', is_collective = False, members = []\<rparr>
                     in (Inr (listed_msg B crop quantity (lot_id new_lot) price),
                         w1\<lparr>lots := lots w1 @ [new_lot]\<rparr>)))))"

text \<open>The MSP alert at the end of the BID branch.\<close>

definition msp_alert :: "builtins \<Rightarrow> Lot \<Rightarrow> int \<Rightarrow> rat \<Rightarrow> world \<Rightarrow> world" where
  "msp_alert B lot i amount w =
     (case MSP_PRICES (lower (crop_type lot)) of
        None \<Rightarrow> w
      | Some msp \<Rightarrow>
          (if msp \<noteq> 0 \<and> amount < of_int msp
           then (case find (\<lambda>u. user_id u = farmer_id lot) (users w) of
                   None \<Rightarrow> w
                 | Some farmer \<Rightarrow>
                     (if phone_number farmer \<noteq> []
                      then send_sms (phone_number farmer) (alert_msg B amount (crop_type lot) i msp) w
                      else w))
           else w))"

text \<open>The branch \<^verbatim>\<open>command == 'bid' and len(parts) == 3\<close>. The three failing
  checks return before the insert. A bid that passes them is added and committed by
  \<open>add_Bid\<close>; an exception there leaves what \<^verbatim>\<open>get_or_create_user\<close> committed,
  and the event, the reply and the MSP alert that follow the commit are not reached.\<close>

definition bid_cmd :: "builtins \<Rightarrow> string \<Rightarrow> string \<Rightarrow> string list \<Rightarrow> world \<Rightarrow> reply \<times> world" where
  "bid_cmd B code phone parts w =
     (case py_int B (parts ! 1) of
        None \<Rightarrow> (Inr invalid_bid, w)
      | Some i \<Rightarrow>
          (case py_float B (parts ! 2) of
             None \<Rightarrow> (Inr invalid_bid, w)
           | Some amount \<Rightarrow>
               (case get_or_create_user code phone ''buyer'' None w of
                  (user, w1) \<Rightarrow>
                    (case find (\<lambda>l. lot_id l = i) (lots w1) of
                       None \<Rightarrow> (Inr not_available, w1)
                     | Some lot \<Rightarrow>
                         (if status lot \<noteq> ''open'' then (Inr not_available, w1)
                          else if truthy (min_price lot) \<and> amount < the (min_price lot)
                          then (Inr (too_low_msg B (the (min_price lot))), w1)
                          else
                            (let new_bid = \<lparr>bid_id = next_id (map bid_id (bids w1)),
                                            bid_lot_id = i, bidder_id = user_id user,
                                            bid_amount = amount\<rparr>
                             in case add_Bid new_bid w1 of
                                  Inl e \<Rightarrow> (Inl e, w1)
                                | Inr w2 \<Rightarrow>
                                    (let w3 = w2\<lparr>emitted := emitted w2 @ [(i, amount)]\<rparr>
                                     in (Inr (recorded_msg B amount i),
                                         msp_alert B lot i amount w3))))))))"

text \<open>The branch \<^verbatim>\<open>command == 'collective' and len(parts) >= 3\<close>. Reading
  \<^verbatim>\<open>parts[3]\<close> of three tokens raises \<^verbatim>\<open>IndexError\<close>, which the handler catches
  like a \<^verbatim>\<open>ValueError\<close>.\<close>

definition open_collective :: "string \<Rightarrow> Lot \<Rightarrow> bool" where
  "open_collective crop l = (is_collective l \<and> crop_type l = crop \<and> status l = ''open'')"

definition join_lot :: "int \<Rightarrow> rat \<Rightarrow> Lot \<Rightarrow> Lot" where
  "join_lot u quantity l = l\<lparr>members := members l @ [u], quantity_kg := quantity_kg l + quantity\<rparr>"

definition collective_cmd :: "builtins \<Rightarrow> string \<Rightarrow> string \<Rightarrow> string list \<Rightarrow> world \<Rightarrow> reply \<times> world" where
  "collective_cmd B code phone parts w =
     (let crop = parts ! 1 in
      case py_float B (parts ! 2) of
        None \<Rightarrow> (Inr invalid_collective, w)
      | Some quantity \<Rightarrow>
          (if length parts \<le> 3 then (Inr invalid_collective, w)
           else
             (case get_or_create_user code phone ''farmer'' (Some (parts ! 3)) w of
                (user, w1) \<Rightarrow>
                  (case find (open_collective crop) (lots w1) of
                     Some collective_lot \<Rightarrow>
                       (Inr (joined_msg B crop (quantity_kg collective_lot + quantity) (lot_id collective_lot)),
                        w1\<lparr>lots := update_first (open_collective crop)
                                       (join_lot (user_id user) quantity) (lots w1)\<rparr>)
                   | None \<Rightarrow>
                       (let new_lot = \<lparr>lot_id = next_id (map lot_id (lots w1)),
                                       farmer_id = user_id user, crop_type = crop,
                                       quantity_kg = quantity, min_price = None,
                                       status = ''open'', is_collective = True,
                                       members = [user_id user]\<rparr>
                        in (Inr (created_msg crop (lot_id new_lot)),
                            w1\<lparr>lots := lots w1 @ [new_lot]\<rparr>))))))"

text \<open>\<^verbatim>\<open>sms_handler\<close>: \<open>code\<close> is the login code drawn if a user has to be created,
  \<open>Body\<close> and \<open>From\<close> the form fields (empty when absent). The result is the reply
  and the new state.\<close>

definition tokens :: "string \<Rightarrow> string list" where
  "tokens Body = split_sp (lower (strip Body))"

definition dispatch :: "builtins \<Rightarrow> string \<Rightarrow> string \<Rightarrow> string list \<Rightarrow> world \<Rightarrow> reply \<times> world" where
  "dispatch B code phone parts w =
     (let command = (case parts of [] \<Rightarrow> [] | c # _ \<Rightarrow> c) in
      if command = ''list'' \<and> 3 \<le> length parts then list_cmd B code phone parts w
      else if command = ''bid'' \<and> length parts = 3 then bid_cmd B code phone parts w
      else if command = ''collective'' \<and> 3 \<le> length parts then collective_cmd B code phone parts w
      else (Inr help_msg, w))"

definition sms_handler :: "builtins \<Rightarrow> string \<Rightarrow> string \<Rightarrow> string \<Rightarrow> world \<Rightarrow> reply \<times> world" where
  "sms_handler B code Body From w = dispatch B code From (tokens Body) w"

text \<open>A sequence of inbound messages, each a triple (code, Body, From). A request that
  ends in an exception leaves its committed state to the next one.\<close>

fun run_sms :: "builtins \<Rightarrow> (string \<times> string \<times> string) list \<Rightarrow> world \<Rightarrow> world" where
  "run_sms B [] w = w"
| "run_sms B ((code, Body, From) # ms) w = run_sms B ms (snd (sms_handler B code Body From w))"

subsection \<open>Contract generation and sale confirmation\<close>

datatype payload = Message string | Contract string string string rat rat rat

type_synonym response = "nat \<times> payload"

text \<open>\<^verbatim>\<open>generate_contract\<close>. The rendered template is represented by its substituted
  fields: seller, buyer, crop, quantity, rate and total. Reading \<^verbatim>\<open>phone_number\<close> of a
  missing user raises \<^verbatim>\<open>AttributeError\<close>.\<close>

definition generate_contract :: "world \<Rightarrow> int \<Rightarrow> py_error + response" where
  "generate_contract w i =
     (case find (\<lambda>l. lot_id l = i) (lots w) of
        None \<Rightarrow> Inr (404, Message ''Not Found'')
      | Some lot \<Rightarrow>
          (let highest = highest_bid w (lot_id lot) in
           case find (\<lambda>b. bid_lot_id b = lot_id lot \<and> bid_amount b = highest) (bids w) of
             None \<Rightarrow> Inr (404, Message ''No bids on this lot yet.'')
           | Some buyer_bid \<Rightarrow>
               (case find (\<lambda>u. user_id u = farmer_id lot) (users w) of
                  None \<Rightarrow> Inl AttributeError
                | Some farmer \<Rightarrow>
                    (case find (\<lambda>u. user_id u = bidder_id buyer_bid) (users w) of
                       None \<Rightarrow> Inl AttributeError
                     | Some buyer \<Rightarrow>
                         Inr (200, Contract (phone_number farmer) (phone_number buyer)
                                     (crop_type lot) (quantity_kg lot) highest
                                     (highest * quantity_kg lot))))))"

text \<open>\<^verbatim>\<open>confirm_sale\<close> reads \<^verbatim>\<open>.bidder\<close> of the winning \<^verbatim>\<open>Bid\<close> and
  \<^verbatim>\<open>.farmer\<close> of the \<^verbatim>\<open>Lot\<close>. The model classes declare the columns
  \<^verbatim>\<open>bidder_id\<close> and \<^verbatim>\<open>farmer_id\<close> only, and no relationship: neither attribute
  exists, and reading it raises \<^verbatim>\<open>AttributeError\<close>.\<close>

definition Bid_bidder :: "world \<Rightarrow> Bid \<Rightarrow> py_error + User" where
  "Bid_bidder w b = Inl AttributeError"

definition Lot_farmer :: "world \<Rightarrow> Lot \<Rightarrow> py_error + User" where
  "Lot_farmer w l = Inl AttributeError"

definition sold_msg :: "builtins \<Rightarrow> Lot \<Rightarrow> rat \<Rightarrow> string" where
  "sold_msg B lot highest =
     ''CONGRATS! Your '' @ crop_type lot @ '' lot '' @ str_int (lot_id lot) @ '' has been sold for Rs. ''
       @ py_str_float B highest @ '' per kg.''"

definition won_msg :: "builtins \<Rightarrow> Lot \<Rightarrow> rat \<Rightarrow> string" where
  "won_msg B lot highest =
     ''SUCCESS! Your bid of Rs. '' @ py_str_float B highest @ '' per kg for lot '' @ str_int (lot_id lot)
       @ '' has won the auction. The lot is now closed.''"

definition confirm_sale :: "builtins \<Rightarrow> int \<Rightarrow> world \<Rightarrow> (py_error + response) \<times> world" where
  "confirm_sale B i w =
     (case find (\<lambda>l. lot_id l = i) (lots w) of
        None \<Rightarrow> (Inr (404, Message ''Not Found''), w)
      | Some lot \<Rightarrow>
          (let highest = highest_bid w (lot_id lot) in
           if highest = 0 then (Inr (400, Message ''No bids to confirm sale for this lot.''), w)
           else
             (let w1 = w\<lparr>lots := update_first (\<lambda>l. lot_id l = i) (\<lambda>l. l\<lparr>status := ''sold''\<rparr>) (lots w)\<rparr>;
                  lot1 = lot\<lparr>status := ''sold''\<rparr>
              in case find (\<lambda>b. bid_lot_id b = i \<and> bid_amount b = highest) (bids w1) of
                   None \<Rightarrow> (Inl AttributeError, w1)
                 | Some winning \<Rightarrow>
                     (case Bid_bidder w1 winning of
                        Inl e \<Rightarrow> (Inl e, w1)
                      | Inr buyer \<Rightarrow>
                          (case Lot_farmer w1 lot1 of
                             Inl e \<Rightarrow> (Inl e, w1)
                           | Inr farmer \<Rightarrow>
                               (Inr (200, Message ''Sale confirmed and notifications sent.''),
                                send_sms (phone_number buyer) (won_msg B lot1 highest)
                                  (send_sms (phone_number farmer) (sold_msg B lot1 highest) w1)))))))"

subsection \<open>The states of the database\<close>

text \<open>The database starts empty and is written by the webhook and by sale confirmation
  only; the other endpoints read.\<close>

definition empty_world :: world where
  "empty_world = \<lparr>users = [], lots = [], bids = [], outbox = [], emitted = []\<rparr>"


subsection \<open>Builtins for the examples\<close>

text \<open>An instance of the builtins that agrees with Python on unsigned and negative decimal
  integer literals: \<^verbatim>\<open>int('500') = 500\<close>, \<^verbatim>\<open>float('500') = 500.0\<close>,
  \<^verbatim>\<open>str(500.0) = '500.0'\<close>. It is used at such inputs only, in the examples.\<close>

definition dec_nat :: "string \<Rightarrow> nat option" where
  "dec_nat s =
     (if s \<noteq> [] \<and> list_all (\<lambda>c. c \<in> set ''0123456789'') s
      then Some (foldl (\<lambda>a c. 10 * a + (of_char c - 48)) 0 s)
      else None)"

definition dec_int :: "string \<Rightarrow> int option" where
  "dec_int s =
     (case s of
        [] \<Rightarrow> None
      | c # r \<Rightarrow> (if c = CHR ''-'' then map_option (\<lambda>n. - int n) (dec_nat r)
                  else map_option int (dec_nat s)))"

definition lit_builtins :: builtins where
  "lit_builtins =
     \<lparr>py_int = dec_int,
      py_float = (\<lambda>s. map_option rat_of_int (dec_int s)),
      py_str_float = (\<lambda>x. str_int \<lfloor>x\<rfloor> @ ''.0'')\<rparr>"

text \<open>A bid ledger for the examples: two bids on lot 1, one on lot 2.\<close>

definition demo_bids :: world where
  "demo_bids = empty_world\<lparr>bids :=
     [\<lparr>bid_id = 1, bid_lot_id = 1, bidder_id = 2, bid_amount = 2300\<rparr>,
      \<lparr>bid_id = 2, bid_lot_id = 2, bidder_id = 2, bid_amount = 9000\<rparr>,
      \<lparr>bid_id = 3, bid_lot_id = 1, bidder_id = 3, bid_amount = 2400\<rparr>]\<rparr>"

text \<open>States reached from the empty database by inbound messages: a wheat lot listed with
  the explicit price 0; a wheat lot at the MSP after a buyer has sent a bid of 2300 on it; a
  wheat lot with the explicit price 2000.\<close>

definition zero_price_world :: world where
  "zero_price_world =
     run_sms lit_builtins [(''111111111111'', ''list wheat 500 0'', ''+911'')] empty_world"

definition sale_world :: world where
  "sale_world =
     run_sms lit_builtins
       [(''111111111111'', ''list wheat 500'', ''+911''),
        (''222222222222'', ''bid 1 2300'', ''+912'')] empty_world"

definition low_price_world :: world where
  "low_price_world =
     run_sms lit_builtins [(''111111111111'', ''list wheat 500 2000'', ''+911'')] empty_world"




section \<open>Properties\<close>

subsection \<open>Auxiliary facts\<close>

lemma split_sp_nonempty: "split_sp s \<noteq> []"
  by (induction s) (auto split: list.splits)

lemma sql_max_None: "sql_max xs = None \<longleftrightarrow> xs = []"
  by (cases xs) (auto split: option.splits)

lemma sql_max_Max: "xs \<noteq> [] \<Longrightarrow> sql_max xs = Some (Max (set xs))"
proof (induction xs)
  case Nil
  then show ?case by simp
next
  case (Cons x xs)
  show ?case
  proof (cases "xs = []")
    case True
    then show ?thesis by simp
  next
    case False
    with Cons have "sql_max xs = Some (Max (set xs))" by simp
    with False show ?thesis by simp
  qed
qed

lemma gocu_known:
  "find (\<lambda>u. phone_number u = phone) (users w) = Some u \<Longrightarrow>
   get_or_create_user code phone t d w = (u, w)"
  by (simp add: get_or_create_user_def)

lemma gocu_new:
  "find (\<lambda>u. phone_number u = phone) (users w) = None \<Longrightarrow>
   get_or_create_user code phone t d w =
     (\<lparr>user_id = next_id (map user_id (users w)), phone_number = phone, user_type = t,
       district = d, login_code = code\<rparr>,
      w\<lparr>users := users w @ [\<lparr>user_id = next_id (map user_id (users w)), phone_number = phone,
                               user_type = t, district = d, login_code = code\<rparr>],
        outbox := outbox w @ [(phone, welcome_msg code)]\<rparr>)"
  by (simp add: get_or_create_user_def send_sms_def Let_def)

lemma gocu_frame [simp]:
  "lots (snd (get_or_create_user code phone t d w)) = lots w"
  "bids (snd (get_or_create_user code phone t d w)) = bids w"
  "emitted (snd (get_or_create_user code phone t d w)) = emitted w"
  by (cases "find (\<lambda>u. phone_number u = phone) (users w)"; simp add: gocu_known gocu_new)+

lemma dispatch_bid:
  "dispatch B code phone [''bid'', a, b] w = bid_cmd B code phone [''bid'', a, b] w"
  by (simp add: dispatch_def)

text \<open>Unfolding sets for evaluating the handlers on concrete requests.\<close>

lemma lit_sel:
  "py_int lit_builtins = dec_int"
  "py_float lit_builtins = (\<lambda>s. map_option rat_of_int (dec_int s))"
  "py_str_float lit_builtins = (\<lambda>x. str_int \<lfloor>x\<rfloor> @ ''.0'')"
  by (simp_all add: lit_builtins_def)

lemmas string_defs = tokens_def strip_def lower_def lower_char_def is_space_def

lemmas number_defs = dec_int_def dec_nat_def str_int_def str_nat.simps digit_char_def

lemmas insert_defs = add_Bid_def Bid_timestamp_default_def sqlite_DateTime_binds_def

lemmas handler_defs = sms_handler_def dispatch_def list_cmd_def bid_cmd_def collective_cmd_def
  insert_defs msp_alert_def get_or_create_user_def send_sms_def next_id_def MSP_PRICES_def lit_sel
  empty_world_def open_collective_def join_lot_def Let_def

lemmas message_defs = listed_msg_def recorded_msg_def alert_msg_def too_low_msg_def
  joined_msg_def created_msg_def not_available_def help_msg_def invalid_list_def
  invalid_bid_def invalid_collective_def welcome_msg_def

subsection \<open>Highest bid\<close>

text \<open>
  C7. The highest-bid value of a lot, as computed by \<open>get_all_lots\<close>, \<open>generate_contract\<close>
  and \<open>confirm_sale\<close>, is 0 when the lot has no bids and the maximum \<open>bid_amount\<close> among
  the lot's bids when it has at least one.
\<close>

theorem highest_bid_max:
  "(lot_bids w i = [] \<longrightarrow> highest_bid w i = 0) \<and>
   (lot_bids w i \<noteq> [] \<longrightarrow> highest_bid w i = Max (set (map bid_amount (lot_bids w i))))"
proof (cases "lot_bids w i = []")
  case True
  then show ?thesis by (simp add: highest_bid_def)
next
  case False
  then have "sql_max (map bid_amount (lot_bids w i)) = Some (Max (set (map bid_amount (lot_bids w i))))"
    by (intro sql_max_Max) simp
  with False show ?thesis by (simp add: highest_bid_def)
qed

theorem highest_bid_max_witness:
  "lot_bids demo_bids 1 \<noteq> [] \<and> highest_bid demo_bids 1 = 2400 \<and>
   lot_bids demo_bids 7 = [] \<and> highest_bid demo_bids 7 = 0"
  using highest_bid_max [of demo_bids 1] highest_bid_max [of demo_bids 7]
  by (simp add: demo_bids_def empty_world_def lot_bids_def)

subsection \<open>The example states\<close>

lemma zero_price_world_eq:
  "zero_price_world =
     \<lparr>users = [\<lparr>user_id = 1, phone_number = ''+911'', user_type = ''farmer'', district = None,
                login_code = ''111111111111''\<rparr>],
      lots = [\<lparr>lot_id = 1, farmer_id = 1, crop_type = ''wheat'', quantity_kg = 500,
               min_price = Some 0, status = ''open'', is_collective = False, members = []\<rparr>],
      bids = [],
      outbox = [(''+911'', welcome_msg ''111111111111'')],
      emitted = []\<rparr>"
  by (simp add: zero_price_world_def string_defs number_defs handler_defs)

lemma sale_world_eq:
  "sale_world =
     \<lparr>users = [\<lparr>user_id = 1, phone_number = ''+911'', user_type = ''farmer'', district = None,
                login_code = ''111111111111''\<rparr>,
               \<lparr>user_id = 2, phone_number = ''+912'', user_type = ''buyer'', district = None,
                login_code = ''222222222222''\<rparr>],
      lots = [\<lparr>lot_id = 1, farmer_id = 1, crop_type = ''wheat'', quantity_kg = 500,
               min_price = Some 2275, status = ''open'', is_collective = False, members = []\<rparr>],
      bids = [],
      outbox = [(''+911'', welcome_msg ''111111111111''), (''+912'', welcome_msg ''222222222222'')],
      emitted = []\<rparr>"
  by (simp add: sale_world_def string_defs number_defs handler_defs)

lemma low_price_world_eq:
  "low_price_world =
     \<lparr>users = [\<lparr>user_id = 1, phone_number = ''+911'', user_type = ''farmer'', district = None,
                login_code = ''111111111111''\<rparr>],
      lots = [\<lparr>lot_id = 1, farmer_id = 1, crop_type = ''wheat'', quantity_kg = 500,
               min_price = Some 2000, status = ''open'', is_collective = False, members = []\<rparr>],
      bids = [],
      outbox = [(''+911'', welcome_msg ''111111111111'')],
      emitted = []\<rparr>"
  by (simp add: low_price_world_def string_defs number_defs handler_defs)

subsection \<open>The bid ledger is never written\<close>

text \<open>The insert of a bid raises whatever the bid is.\<close>

lemma add_Bid_raises: "add_Bid b w = Inl StatementError"
  by (simp add: insert_defs)

text \<open>A BID command that passes the three checks ends in \<^verbatim>\<open>StatementError\<close>: the state is
  the one \<open>get_or_create_user\<close> leaves, with no bid, no event and no alert.\<close>

lemma bid_passing_checks_raises:
  assumes toks: "tokens Body = [''bid'', a, b]"
    and pi: "py_int B a = Some i"
    and pf: "py_float B b = Some amount"
    and lot: "find (\<lambda>l. lot_id l = i) (lots w) = Some lot"
    and opn: "status lot = ''open''"
    and ok: "\<not> (truthy (min_price lot) \<and> amount < the (min_price lot))"
  shows "sms_handler B code Body From w =
           (Inl StatementError, snd (get_or_create_user code From ''buyer'' None w))"
proof -
  obtain user w1 where g: "get_or_create_user code From ''buyer'' None w = (user, w1)"
    by (cases "get_or_create_user code From ''buyer'' None w")
  have l1: "lots w1 = lots w"
    using gocu_frame(1) [of code From "''buyer''" None w] g by simp
  show ?thesis
    using ok
    by (cases "truthy (min_price lot)")
       (simp_all add: sms_handler_def toks dispatch_bid bid_cmd_def pi pf g l1 lot opn Let_def
          add_Bid_raises)
qed





subsection \<open>Bids below the minimum price\<close>

text \<open>
  C1. For every BID command on an open lot whose minimum price is set, a bid amount strictly
  below that minimum price leaves the bid ledger and the event log unchanged, for every
  stored minimum price including 0. When the minimum price is not zero the bid is refused
  with the "too low" reply. The code tests \<^verbatim>\<open>lot.min_price and ...\<close>, so a stored
  minimum price of 0 counts as not set and the bid goes on to the insert, which raises: no
  bid is stored and no event is emitted there either.
\<close>

theorem bid_below_min_price_not_persisted:
  assumes toks: "tokens Body = [''bid'', a, b]"
    and pi: "py_int B a = Some i"
    and pf: "py_float B b = Some amount"
    and lot: "find (\<lambda>l. lot_id l = i) (lots w) = Some lot"
    and opn: "status lot = ''open''"
    and mp: "min_price lot = Some m"
    and low: "amount < m"
  shows "bids (snd (sms_handler B code Body From w)) = bids w \<and>
         emitted (snd (sms_handler B code Body From w)) = emitted w \<and>
         sms_handler B code Body From w =
           (if m = 0 then Inl StatementError else Inr (too_low_msg B m),
            snd (get_or_create_user code From ''buyer'' None w))"
proof -
  obtain user w1 where g: "get_or_create_user code From ''buyer'' None w = (user, w1)"
    by (cases "get_or_create_user code From ''buyer'' None w")
  have l1: "lots w1 = lots w" and b1: "bids w1 = bids w" and e1: "emitted w1 = emitted w"
    using gocu_frame [of code From "''buyer''" None w] g by simp_all
  have "sms_handler B code Body From w =
      (if m = 0 then Inl StatementError else Inr (too_low_msg B m), w1)"
    using low
    by (simp add: sms_handler_def toks dispatch_bid bid_cmd_def pi pf g l1 lot opn mp Let_def
        add_Bid_raises)
  then show ?thesis
    by (simp add: g b1 e1)
qed

theorem bid_below_min_price_not_persisted_witness:
  "tokens ''bid 1 -5'' = [''bid'', ''1'', ''-5''] \<and>
   py_int lit_builtins ''1'' = Some 1 \<and> py_float lit_builtins ''-5'' = Some (- 5) \<and>
   map (\<lambda>l. (lot_id l, status l, min_price l)) (lots zero_price_world) = [(1, ''open'', Some 0)] \<and>
   bids (snd (sms_handler lit_builtins ''222222222222'' ''bid 1 -5'' ''+912'' zero_price_world)) = [] \<and>
   emitted (snd (sms_handler lit_builtins ''222222222222'' ''bid 1 -5'' ''+912'' zero_price_world)) = [] \<and>
   fst (sms_handler lit_builtins ''222222222222'' ''bid 1 -5'' ''+912'' zero_price_world)
     = Inl StatementError \<and>
   tokens ''bid 1 2000'' = [''bid'', ''1'', ''2000''] \<and>
   py_float lit_builtins ''2000'' = Some 2000 \<and>
   map (\<lambda>l. (lot_id l, status l, min_price l)) (lots sale_world) = [(1, ''open'', Some 2275)] \<and>
   bids (snd (sms_handler lit_builtins ''333333333333'' ''bid 1 2000'' ''+912'' sale_world)) = [] \<and>
   emitted (snd (sms_handler lit_builtins ''333333333333'' ''bid 1 2000'' ''+912'' sale_world)) = [] \<and>
   fst (sms_handler lit_builtins ''333333333333'' ''bid 1 2000'' ''+912'' sale_world)
     = Inr ''Your bid is too low. Minimum price is Rs. 2275.0.''"
proof -
  let ?zlot = "\<lparr>lot_id = 1, farmer_id = 1, crop_type = ''wheat'', quantity_kg = 500,
               min_price = Some 0, status = ''open'', is_collective = False, members = []\<rparr>"
  let ?slot = "\<lparr>lot_id = 1, farmer_id = 1, crop_type = ''wheat'', quantity_kg = 500,
               min_price = Some 2275, status = ''open'', is_collective = False, members = []\<rparr>"
  have t1: "tokens ''bid 1 -5'' = [''bid'', ''1'', ''-5'']"
    and t2: "tokens ''bid 1 2000'' = [''bid'', ''1'', ''2000'']"
    by (simp_all add: string_defs)
  have pi: "py_int lit_builtins ''1'' = Some 1"
    and pf1: "py_float lit_builtins ''-5'' = Some (- 5)"
    and pf2: "py_float lit_builtins ''2000'' = Some 2000"
    by (simp_all add: lit_sel number_defs)
  have zl: "find (\<lambda>l. lot_id l = 1) (lots zero_price_world) = Some ?zlot"
    and zb: "bids zero_price_world = []" and ze: "emitted zero_price_world = []"
    and zs: "map (\<lambda>l. (lot_id l, status l, min_price l)) (lots zero_price_world) = [(1, ''open'', Some 0)]"
    by (simp_all add: zero_price_world_eq)
  have sl: "find (\<lambda>l. lot_id l = 1) (lots sale_world) = Some ?slot"
    and sb: "bids sale_world = []" and se: "emitted sale_world = []"
    and ss: "map (\<lambda>l. (lot_id l, status l, min_price l)) (lots sale_world) = [(1, ''open'', Some 2275)]"
    by (simp_all add: sale_world_eq)
  have msg: "too_low_msg lit_builtins 2275 = ''Your bid is too low. Minimum price is Rs. 2275.0.''"
    by (simp add: too_low_msg_def lit_sel number_defs)
  have z: "bids (snd (sms_handler lit_builtins ''222222222222'' ''bid 1 -5'' ''+912'' zero_price_world)) = [] \<and>
     emitted (snd (sms_handler lit_builtins ''222222222222'' ''bid 1 -5'' ''+912'' zero_price_world)) = [] \<and>
     fst (sms_handler lit_builtins ''222222222222'' ''bid 1 -5'' ''+912'' zero_price_world)
       = Inl StatementError"
    using bid_below_min_price_not_persisted
      [OF t1 pi pf1 zl, of 0 "''222222222222''" "''+912''"]
    by (simp add: zb ze)
  have s: "bids (snd (sms_handler lit_builtins ''333333333333'' ''bid 1 2000'' ''+912'' sale_world)) = [] \<and>
     emitted (snd (sms_handler lit_builtins ''333333333333'' ''bid 1 2000'' ''+912'' sale_world)) = [] \<and>
     fst (sms_handler lit_builtins ''333333333333'' ''bid 1 2000'' ''+912'' sale_world)
       = Inr ''Your bid is too low. Minimum price is Rs. 2275.0.''"
    using bid_below_min_price_not_persisted
      [OF t2 pi pf2 sl, of 2275 "''333333333333''" "''+912''"]
    by (simp add: sb se msg)
  show ?thesis
    using t1 t2 pi pf1 pf2 zs ss z s by simp
qed

subsection \<open>Failed preconditions of BID\<close>

text \<open>
  C2 as it holds. When a BID command fails a precondition (the lot does not exist, is not open,
  or the amount is below the lot's minimum price, that price being set and not zero), no lot
  and no bid is created or changed and no event is emitted, and the reply names the failure.
  The caller is looked up or registered before the checks: the new state is the one
  \<open>get_or_create_user\<close> leaves, which is the old state when the phone number is known.
\<close>

theorem bid_precondition_failure:
  assumes toks: "tokens Body = [''bid'', a, b]"
    and pi: "py_int B a = Some i"
    and pf: "py_float B b = Some amount"
    and fail: "case find (\<lambda>l. lot_id l = i) (lots w) of
                 None \<Rightarrow> True
               | Some lot \<Rightarrow> status lot \<noteq> ''open'' \<or>
                             (\<exists>m. min_price lot = Some m \<and> m \<noteq> 0 \<and> amount < m)"
  shows "snd (sms_handler B code Body From w) = snd (get_or_create_user code From ''buyer'' None w) \<and>
         lots (snd (sms_handler B code Body From w)) = lots w \<and>
         bids (snd (sms_handler B code Body From w)) = bids w \<and>
         emitted (snd (sms_handler B code Body From w)) = emitted w \<and>
         (find (\<lambda>u. phone_number u = From) (users w) \<noteq> None \<longrightarrow>
            snd (sms_handler B code Body From w) = w) \<and>
         fst (sms_handler B code Body From w) =
           (case find (\<lambda>l. lot_id l = i) (lots w) of
              None \<Rightarrow> Inr not_available
            | Some lot \<Rightarrow> if status lot \<noteq> ''open'' then Inr not_available
                          else Inr (too_low_msg B (the (min_price lot))))"
proof -
  obtain user w1 where g: "get_or_create_user code From ''buyer'' None w = (user, w1)"
    by (cases "get_or_create_user code From ''buyer'' None w")
  have l1: "lots w1 = lots w" and b1: "bids w1 = bids w" and e1: "emitted w1 = emitted w"
    using gocu_frame [of code From "''buyer''" None w] g by simp_all
  have res: "sms_handler B code Body From w =
      ((case find (\<lambda>l. lot_id l = i) (lots w) of
              None \<Rightarrow> Inr not_available
            | Some lot \<Rightarrow> if status lot \<noteq> ''open'' then Inr not_available
                          else Inr (too_low_msg B (the (min_price lot)))), w1)"
    using fail
    by (auto simp: sms_handler_def toks dispatch_bid bid_cmd_def pi pf g l1 split: option.splits)
  have known: "find (\<lambda>u. phone_number u = From) (users w) \<noteq> None \<Longrightarrow> w1 = w"
    using g by (auto simp: gocu_known)
  show ?thesis
    using known by (simp add: res g l1 b1 e1)
qed

theorem bid_precondition_failure_witness:
  "tokens ''bid 1 2000'' = [''bid'', ''1'', ''2000''] \<and>
   py_int lit_builtins ''1'' = Some 1 \<and> py_float lit_builtins ''2000'' = Some 2000 \<and>
   map min_price (lots sale_world) = [Some 2275] \<and>
   sms_handler lit_builtins ''333333333333'' ''bid 1 2000'' ''+912'' sale_world
     = (Inr ''Your bid is too low. Minimum price is Rs. 2275.0.'', sale_world)"
proof -
  have t: "tokens ''bid 1 2000'' = [''bid'', ''1'', ''2000'']"
    by (simp add: string_defs)
  have pi: "py_int lit_builtins ''1'' = Some 1"
    by (simp add: lit_sel number_defs)
  have pf: "py_float lit_builtins ''2000'' = Some 2000"
    by (simp add: lit_sel number_defs)
  have fail: "case find (\<lambda>l. lot_id l = 1) (lots sale_world) of
                 None \<Rightarrow> True
               | Some lot \<Rightarrow> status lot \<noteq> ''open'' \<or>
                             (\<exists>m. min_price lot = Some m \<and> m \<noteq> 0 \<and> 2000 < m)"
    by (simp add: sale_world_eq)
  have known: "find (\<lambda>u. phone_number u = ''+912'') (users sale_world) \<noteq> None"
    by (simp add: sale_world_eq)
  have lot: "find (\<lambda>l. lot_id l = 1) (lots sale_world)
      = Some \<lparr>lot_id = 1, farmer_id = 1, crop_type = ''wheat'', quantity_kg = 500,
               min_price = Some 2275, status = ''open'', is_collective = False, members = []\<rparr>"
    by (simp add: sale_world_eq)
  have msg: "too_low_msg lit_builtins 2275 = ''Your bid is too low. Minimum price is Rs. 2275.0.''"
    by (simp add: too_low_msg_def lit_sel number_defs)
  note th = bid_precondition_failure [OF t pi pf fail, of "''333333333333''" "''+912''"]
  have s: "snd (sms_handler lit_builtins ''333333333333'' ''bid 1 2000'' ''+912'' sale_world) = sale_world"
    using th known by blast
  have "fst (sms_handler lit_builtins ''333333333333'' ''bid 1 2000'' ''+912'' sale_world)
          = Inr (too_low_msg lit_builtins 2275)"
    using th by (simp add: lot)
  with s have "sms_handler lit_builtins ''333333333333'' ''bid 1 2000'' ''+912'' sale_world
      = (Inr ''Your bid is too low. Minimum price is Rs. 2275.0.'', sale_world)"
    by (simp add: msg prod_eq_iff)
  moreover have "map min_price (lots sale_world) = [Some 2275]"
    by (simp add: sale_world_eq)
  ultimately show ?thesis
    using t pi pf by simp
qed

text \<open>As stated the claim fails: a BID on a lot that does not exist, sent from an unknown
  number, creates a User record.\<close>

theorem bid_on_missing_lot_creates_user:
  "fst (sms_handler lit_builtins ''222222222222'' ''bid 7 100'' ''+912'' empty_world)
     = Inr not_available \<and>
   lots empty_world = [] \<and>
   users (snd (sms_handler lit_builtins ''222222222222'' ''bid 7 100'' ''+912'' empty_world))
     = [\<lparr>user_id = 1, phone_number = ''+912'', user_type = ''buyer'', district = None,
         login_code = ''222222222222''\<rparr>] \<and>
   users (snd (sms_handler lit_builtins ''222222222222'' ''bid 7 100'' ''+912'' empty_world))
     \<noteq> users empty_world"
  by (simp add: string_defs number_defs handler_defs)


subsection \<open>Accepted bids and the MSP alert\<close>

text \<open>
  C5. An accepted bid is persisted, and exactly one MSP alert is sent to the lot's farmer when
  the amount is strictly below the MSP listed for the lot's crop. On the wheat lot 1 listed
  at the explicit price 2000, the command \<^verbatim>\<open>bid 1 2100\<close> passes every check of the
  BID branch and its amount is below the wheat MSP of 2275; the code registers the buyer and
  then raises \<^verbatim>\<open>StatementError\<close> at the insert: no bid is stored, no event is emitted,
  there is no reply, and the only message sent is the buyer's welcome, not an alert to the
  farmer.
\<close>

theorem accepted_bid_raises:
  "map (\<lambda>l. (lot_id l, crop_type l, status l, min_price l)) (lots low_price_world)
     = [(1, ''wheat'', ''open'', Some 2000)] \<and>
   MSP_PRICES ''wheat'' = Some 2275 \<and>
   py_int lit_builtins ''1'' = Some 1 \<and> py_float lit_builtins ''2100'' = Some 2100 \<and>
   fst (sms_handler lit_builtins ''222222222222'' ''bid 1 2100'' ''+912'' low_price_world)
     = Inl StatementError \<and>
   bids (snd (sms_handler lit_builtins ''222222222222'' ''bid 1 2100'' ''+912'' low_price_world))
     = [] \<and>
   emitted (snd (sms_handler lit_builtins ''222222222222'' ''bid 1 2100'' ''+912'' low_price_world))
     = [] \<and>
   outbox (snd (sms_handler lit_builtins ''222222222222'' ''bid 1 2100'' ''+912'' low_price_world))
     = outbox low_price_world @ [(''+912'', welcome_msg ''222222222222'')]"
  by (simp add: low_price_world_eq string_defs number_defs handler_defs)

subsection \<open>Sale confirmation\<close>





text \<open>Sale confirmation calls \<open>send_sms\<close> in no state and answers 200 in no state: past
  the no-bids check it reads \<^verbatim>\<open>.bidder\<close>, which raises.\<close>

lemma confirm_sale_outbox: "outbox (snd (confirm_sale B i w)) = outbox w"
  by (simp add: confirm_sale_def Bid_bidder_def Let_def split: option.splits)

lemma confirm_sale_no_success: "fst (confirm_sale B i w) \<noteq> Inr (200, p)"
  by (simp add: confirm_sale_def Bid_bidder_def Let_def split: option.splits)




subsection \<open>LIST\<close>

lemma dispatch_list:
  "dispatch B code phone (''list'' # crop # qt # rest) w
     = list_cmd B code phone (''list'' # crop # qt # rest) w"
  by (simp add: dispatch_def)


text \<open>
  C6. A valid LIST command (at least three tokens, the quantity and, when present, the price
  parsing as floats) creates exactly one new lot: open, not collective, owned by the caller,
  with the parsed quantity and with the explicit price as minimum price when a fourth token
  is given, otherwise the MSP of the crop (none for a crop that is not in the table). The
  reply is the "Lot listed!" message. The example \<^verbatim>\<open>list wheat 500\<close> is the witness.
\<close>

theorem list_creates_lot:
  assumes toks: "tokens Body = ''list'' # crop # qt # rest"
    and q: "py_float B qt = Some quantity"
    and p: "rest \<noteq> [] \<Longrightarrow> py_float B (hd rest) = Some price"
    and g: "get_or_create_user code From ''farmer'' None w = (user, w1)"
  shows "sms_handler B code Body From w =
           (Inr (listed_msg B crop quantity (next_id (map lot_id (lots w)))
                   (if rest \<noteq> [] then Some (PyFloat price)
                    else map_option PyInt (MSP_PRICES crop))),
            w1\<lparr>lots := lots w @
                  [\<lparr>lot_id = next_id (map lot_id (lots w)), farmer_id = user_id user,
                    crop_type = crop, quantity_kg = quantity,
                    min_price = (if rest \<noteq> [] then Some price
                                 else map_option rat_of_int (MSP_PRICES crop)),
                    status = ''open'', is_collective = False, members = []\<rparr>]\<rparr>)"
proof -
  have l1: "lots w1 = lots w"
    using gocu_frame(1) [of code From "''farmer''" None w] g by simp
  show ?thesis
  proof (cases rest)
    case Nil
    then show ?thesis
      by (simp add: sms_handler_def toks dispatch_list list_cmd_def q g l1 Let_def option.map_comp comp_def)
  next
    case (Cons r rs)
    with p have "py_float B r = Some price" by simp
    with Cons show ?thesis
      by (simp add: sms_handler_def toks dispatch_list list_cmd_def q g l1 Let_def)
  qed
qed

theorem list_creates_lot_witness:
  "tokens ''list wheat 500'' = [''list'', ''wheat'', ''500''] \<and>
   py_float lit_builtins ''500'' = Some 500 \<and>
   sms_handler lit_builtins ''111111111111'' ''list wheat 500'' ''+911'' empty_world =
     (Inr ''Lot listed! Crop: wheat, Quantity: 500.0kg. Lot ID: 1 at your minimum price of Rs. 2275.'',
      \<lparr>users = [\<lparr>user_id = 1, phone_number = ''+911'', user_type = ''farmer'', district = None,
                 login_code = ''111111111111''\<rparr>],
       lots = [\<lparr>lot_id = 1, farmer_id = 1, crop_type = ''wheat'', quantity_kg = 500,
                min_price = Some 2275, status = ''open'', is_collective = False, members = []\<rparr>],
       bids = [],
       outbox = [(''+911'', welcome_msg ''111111111111'')],
       emitted = []\<rparr>) \<and>
   tokens ''LIST Wheat 500 2300'' = [''list'', ''wheat'', ''500'', ''2300''] \<and>
   py_float lit_builtins ''2300'' = Some 2300 \<and>
   sms_handler lit_builtins ''111111111111'' ''LIST Wheat 500 2300'' ''+911'' empty_world =
     (Inr ''Lot listed! Crop: wheat, Quantity: 500.0kg. Lot ID: 1 at your minimum price of Rs. 2300.0.'',
      \<lparr>users = [\<lparr>user_id = 1, phone_number = ''+911'', user_type = ''farmer'', district = None,
                 login_code = ''111111111111''\<rparr>],
       lots = [\<lparr>lot_id = 1, farmer_id = 1, crop_type = ''wheat'', quantity_kg = 500,
                min_price = Some 2300, status = ''open'', is_collective = False, members = []\<rparr>],
       bids = [],
       outbox = [(''+911'', welcome_msg ''111111111111'')],
       emitted = []\<rparr>)"
proof -
  let ?user = "\<lparr>user_id = 1, phone_number = ''+911'', user_type = ''farmer'', district = None,
                 login_code = ''111111111111''\<rparr>"
  let ?w1 = "empty_world\<lparr>users := [?user], outbox := [(''+911'', welcome_msg ''111111111111'')]\<rparr>"
  have t1: "tokens ''list wheat 500'' = ''list'' # ''wheat'' # ''500'' # []"
    by (simp add: string_defs)
  have t2: "tokens ''LIST Wheat 500 2300'' = ''list'' # ''wheat'' # ''500'' # [''2300'']"
    by (simp add: string_defs)
  have q: "py_float lit_builtins ''500'' = Some 500"
    by (simp add: lit_sel number_defs)
  have p1: "[] \<noteq> [] \<Longrightarrow> py_float lit_builtins (hd []) = Some 0"
    by simp
  have p2: "[''2300''] \<noteq> [] \<Longrightarrow> py_float lit_builtins (hd [''2300'']) = Some 2300"
    by (simp add: lit_sel number_defs)
  have g: "get_or_create_user ''111111111111'' ''+911'' ''farmer'' None empty_world = (?user, ?w1)"
    by (simp add: get_or_create_user_def send_sms_def next_id_def empty_world_def Let_def)
  have m1: "listed_msg lit_builtins ''wheat'' 500 1 (Some (PyInt 2275))
      = ''Lot listed! Crop: wheat, Quantity: 500.0kg. Lot ID: 1 at your minimum price of Rs. 2275.''"
    by (simp add: listed_msg_def lit_sel number_defs)
  have m2: "listed_msg lit_builtins ''wheat'' 500 1 (Some (PyFloat 2300))
      = ''Lot listed! Crop: wheat, Quantity: 500.0kg. Lot ID: 1 at your minimum price of Rs. 2300.0.''"
    by (simp add: listed_msg_def lit_sel number_defs)
  have "sms_handler lit_builtins ''111111111111'' ''list wheat 500'' ''+911'' empty_world =
     (Inr ''Lot listed! Crop: wheat, Quantity: 500.0kg. Lot ID: 1 at your minimum price of Rs. 2275.'',
      \<lparr>users = [?user],
       lots = [\<lparr>lot_id = 1, farmer_id = 1, crop_type = ''wheat'', quantity_kg = 500,
                min_price = Some 2275, status = ''open'', is_collective = False, members = []\<rparr>],
       bids = [],
       outbox = [(''+911'', welcome_msg ''111111111111'')],
       emitted = []\<rparr>)"
    using list_creates_lot [OF t1 q p1 g]
    by (simp add: MSP_PRICES_def next_id_def empty_world_def m1)
  moreover have "sms_handler lit_builtins ''111111111111'' ''LIST Wheat 500 2300'' ''+911'' empty_world =
     (Inr ''Lot listed! Crop: wheat, Quantity: 500.0kg. Lot ID: 1 at your minimum price of Rs. 2300.0.'',
      \<lparr>users = [?user],
       lots = [\<lparr>lot_id = 1, farmer_id = 1, crop_type = ''wheat'', quantity_kg = 500,
                min_price = Some 2300, status = ''open'', is_collective = False, members = []\<rparr>],
       bids = [],
       outbox = [(''+911'', welcome_msg ''111111111111'')],
       emitted = []\<rparr>)"
    using list_creates_lot [OF t2 q p2 g]
    by (simp add: next_id_def empty_world_def m2)
  moreover have "py_float lit_builtins ''2300'' = Some 2300"
    by (simp add: lit_sel number_defs)
  ultimately show ?thesis
    using t1 t2 q by simp
qed


subsection \<open>Malformed and unrecognised commands\<close>

lemma hd_tokens_dispatch:
  "parts \<noteq> [] \<Longrightarrow> (case parts of [] \<Rightarrow> [] | c # _ \<Rightarrow> c) = hd parts"
  by (cases parts) simp_all

lemma tokens_nonempty: "tokens Body \<noteq> []"
  by (simp add: tokens_def split_sp_nonempty)

text \<open>
  C8 as it holds. A recognised command word whose token count passes the guard of its branch
  (LIST at least three, BID exactly three, COLLECTIVE at least three) and whose numeric field
  does not parse (for COLLECTIVE also: whose fourth token is missing) gets the "Invalid
  format" reply of that command, and the state is unchanged. Every other message, whether its
  first token is unrecognised or a recognised command word with a token count that fails the
  guard, gets the generic help reply, and the state is unchanged.
\<close>

theorem malformed_command_replies:
  "(hd (tokens Body) = ''list'' \<and> 3 \<le> length (tokens Body) \<and>
      (py_float B (tokens Body ! 2) = None \<or>
       (3 < length (tokens Body) \<and> py_float B (tokens Body ! 3) = None))
    \<longrightarrow> sms_handler B code Body From w = (Inr invalid_list, w)) \<and>
   (hd (tokens Body) = ''bid'' \<and> length (tokens Body) = 3 \<and>
      (py_int B (tokens Body ! 1) = None \<or> py_float B (tokens Body ! 2) = None)
    \<longrightarrow> sms_handler B code Body From w = (Inr invalid_bid, w)) \<and>
   (hd (tokens Body) = ''collective'' \<and> 3 \<le> length (tokens Body) \<and>
      (py_float B (tokens Body ! 2) = None \<or> length (tokens Body) = 3)
    \<longrightarrow> sms_handler B code Body From w = (Inr invalid_collective, w)) \<and>
   (\<not> (hd (tokens Body) = ''list'' \<and> 3 \<le> length (tokens Body)) \<and>
    \<not> (hd (tokens Body) = ''bid'' \<and> length (tokens Body) = 3) \<and>
    \<not> (hd (tokens Body) = ''collective'' \<and> 3 \<le> length (tokens Body))
    \<longrightarrow> sms_handler B code Body From w = (Inr help_msg, w))"
proof -
  define parts where "parts = tokens Body"
  have ne: "parts \<noteq> []"
    by (simp add: parts_def tokens_nonempty)
  have cmd: "(case parts of [] \<Rightarrow> [] | c # _ \<Rightarrow> c) = hd parts"
    using ne by (rule hd_tokens_dispatch)
  have l: "hd parts = ''list'' \<and> 3 \<le> length parts \<and>
      (py_float B (parts ! 2) = None \<or> (3 < length parts \<and> py_float B (parts ! 3) = None))
    \<longrightarrow> dispatch B code From parts w = (Inr invalid_list, w)"
    by (auto simp: dispatch_def cmd list_cmd_def Let_def split: option.splits)
  have b: "hd parts = ''bid'' \<and> length parts = 3 \<and>
      (py_int B (parts ! 1) = None \<or> py_float B (parts ! 2) = None)
    \<longrightarrow> dispatch B code From parts w = (Inr invalid_bid, w)"
    by (auto simp: dispatch_def cmd bid_cmd_def split: option.splits)
  have c: "hd parts = ''collective'' \<and> 3 \<le> length parts \<and>
      (py_float B (parts ! 2) = None \<or> length parts = 3)
    \<longrightarrow> dispatch B code From parts w = (Inr invalid_collective, w)"
    by (auto simp: dispatch_def cmd collective_cmd_def Let_def split: option.splits)
  have h: "\<not> (hd parts = ''list'' \<and> 3 \<le> length parts) \<and>
    \<not> (hd parts = ''bid'' \<and> length parts = 3) \<and>
    \<not> (hd parts = ''collective'' \<and> 3 \<le> length parts)
    \<longrightarrow> dispatch B code From parts w = (Inr help_msg, w)"
    by (auto simp: dispatch_def cmd)
  show ?thesis
    using l b c h unfolding sms_handler_def parts_def by blast
qed

theorem malformed_command_replies_witness:
  "tokens ''list wheat many'' = [''list'', ''wheat'', ''many''] \<and>
   py_float lit_builtins ''many'' = None \<and>
   sms_handler lit_builtins ''111111111111'' ''list wheat many'' ''+911'' empty_world
     = (Inr invalid_list, empty_world) \<and>
   tokens ''bid one 2300'' = [''bid'', ''one'', ''2300''] \<and>
   py_int lit_builtins ''one'' = None \<and>
   sms_handler lit_builtins ''111111111111'' ''bid one 2300'' ''+911'' empty_world
     = (Inr invalid_bid, empty_world) \<and>
   tokens ''collective wheat 100'' = [''collective'', ''wheat'', ''100''] \<and>
   sms_handler lit_builtins ''111111111111'' ''collective wheat 100'' ''+911'' empty_world
     = (Inr invalid_collective, empty_world) \<and>
   tokens ''sell wheat 100'' = [''sell'', ''wheat'', ''100''] \<and>
   sms_handler lit_builtins ''111111111111'' ''sell wheat 100'' ''+911'' empty_world
     = (Inr help_msg, empty_world) \<and>
   tokens ''bid 1'' = [''bid'', ''1''] \<and>
   sms_handler lit_builtins ''111111111111'' ''bid 1'' ''+911'' empty_world
     = (Inr help_msg, empty_world)"
proof -
  have t1: "tokens ''list wheat many'' = [''list'', ''wheat'', ''many'']"
    and t2: "tokens ''bid one 2300'' = [''bid'', ''one'', ''2300'']"
    and t3: "tokens ''collective wheat 100'' = [''collective'', ''wheat'', ''100'']"
    and t4: "tokens ''sell wheat 100'' = [''sell'', ''wheat'', ''100'']"
    and t5: "tokens ''bid 1'' = [''bid'', ''1'']"
    by (simp_all add: string_defs)
  have p1: "py_float lit_builtins ''many'' = None"
    and p2: "py_int lit_builtins ''one'' = None"
    by (simp_all add: lit_sel number_defs)
  have r1: "sms_handler lit_builtins ''111111111111'' ''list wheat many'' ''+911'' empty_world
     = (Inr invalid_list, empty_world)"
    using malformed_command_replies
      [of "''list wheat many''" lit_builtins "''111111111111''" "''+911''" empty_world]
    by (simp add: t1 p1)
  have r2: "sms_handler lit_builtins ''111111111111'' ''bid one 2300'' ''+911'' empty_world
     = (Inr invalid_bid, empty_world)"
    using malformed_command_replies
      [of "''bid one 2300''" lit_builtins "''111111111111''" "''+911''" empty_world]
    by (simp add: t2 p2)
  have r3: "sms_handler lit_builtins ''111111111111'' ''collective wheat 100'' ''+911'' empty_world
     = (Inr invalid_collective, empty_world)"
    using malformed_command_replies
      [of "''collective wheat 100''" lit_builtins "''111111111111''" "''+911''" empty_world]
    by (simp add: t3)
  have r4: "sms_handler lit_builtins ''111111111111'' ''sell wheat 100'' ''+911'' empty_world
     = (Inr help_msg, empty_world)"
    using malformed_command_replies
      [of "''sell wheat 100''" lit_builtins "''111111111111''" "''+911''" empty_world]
    by (simp add: t4)
  have r5: "sms_handler lit_builtins ''111111111111'' ''bid 1'' ''+911'' empty_world
     = (Inr help_msg, empty_world)"
    using malformed_command_replies
      [of "''bid 1''" lit_builtins "''111111111111''" "''+911''" empty_world]
    by (simp add: t5)
  show ?thesis
    using t1 t2 t3 t4 t5 p1 p2 r1 r2 r3 r4 r5 by simp
qed

text \<open>As stated the claim fails: LIST with two tokens is a bad argument count and
  gets the help reply, not the "Invalid format" reply of LIST.\<close>

theorem list_two_tokens_gets_help:
  "hd (tokens ''list wheat'') = ''list'' \<and>
   fst (sms_handler lit_builtins ''111111111111'' ''list wheat'' ''+911'' empty_world)
     = Inr help_msg \<and>
   fst (sms_handler lit_builtins ''111111111111'' ''list wheat'' ''+911'' empty_world)
     \<noteq> Inr invalid_list"
  by (simp add: string_defs number_defs handler_defs help_msg_def invalid_list_def)


subsection \<open>Collective lots\<close>



lemma open_collective_join [simp]: "open_collective crop (join_lot u q l) = open_collective crop l"
  by (simp add: open_collective_def join_lot_def)












subsection \<open>Repeated joins by one farmer\<close>







end
